theory Spec2Isabelle
  imports Complex_Main "HOL-Library.Word"
begin

section \<open>Geometry constants (config.h)\<close>

text \<open>
  The macros of config.h, as the decimal numbers they are written as. The comments of
  the source give their meaning: \<^verbatim>\<open>WHEELRADIUS\<close> is the "radius of wheels", \<^verbatim>\<open>L_X\<close> the
  "distance between wheel contact point in x direction" and \<^verbatim>\<open>L_Y\<close> the same distance in
  y direction, all in metres.
\<close>

definition WHEELRADIUS :: real where
  "WHEELRADIUS = 0.075"

definition L_X :: real where
  "L_X = 0.38"

definition L_Y :: real where
  "L_Y = 0.32"

section \<open>The kinematic transforms in exact arithmetic (config.h)\<close>

text \<open>
  The two transforms, evaluated in the arithmetic of the real numbers: what the matrices
  of the source compute when no operation rounds. A \<^verbatim>\<open>BLA::Matrix<n>\<close> is a column
  vector, here the list of its entries; a \<^verbatim>\<open>BLA::Matrix<r, c>\<close> is the list of its rows,
  in the row-major order of the brace initialiser. \<open>mat_vec\<close> is the product
  \<^verbatim>\<open>M * v\<close> and \<open>scale\<close> the in-place \<^verbatim>\<open>v *= c\<close>.
\<close>

type_synonym vec = "real list"
type_synonym mat = "real list list"

definition dot :: "vec \<Rightarrow> vec \<Rightarrow> real" where
  "dot r v = sum_list (map2 (*) r v)"

definition mat_vec :: "mat \<Rightarrow> vec \<Rightarrow> vec" where
  "mat_vec m v = map (\<lambda>r. dot r v) m"

definition scale :: "real \<Rightarrow> vec \<Rightarrow> vec" where
  "scale c v = map (\<lambda>x. x * c) v"

definition forwardKinematicsModel :: mat where
  "forwardKinematicsModel =
     [[1, -1, -(L_X + L_Y)],
      [1, 1, L_X + L_Y],
      [1, 1, -(L_X + L_Y)],
      [1, -1, L_X + L_Y]]"

definition calculateWheelVelocity :: "vec \<Rightarrow> vec" where
  "calculateWheelVelocity robotVelocity =
     scale (1 / WHEELRADIUS) (mat_vec forwardKinematicsModel robotVelocity)"

definition inverseKinematicsModel :: mat where
  "inverseKinematicsModel =
     [[1, 1, 1, 1],
      [-1, 1, 1, -1],
      [-1 / (L_X + L_Y), 1 / (L_X + L_Y), -1 / (L_X + L_Y), 1 / (L_X + L_Y)]]"

definition calculateRobotVelocity :: "vec \<Rightarrow> vec" where
  "calculateRobotVelocity wheelVelocity =
     scale (WHEELRADIUS / 4) (mat_vec inverseKinematicsModel wheelVelocity)"


section \<open>Floating-point numbers\<close>

text \<open>
  A value of a binary floating-point type: a finite number, one of the two infinities,
  or NaN. The two zeros are not told apart.
\<close>

datatype ieee = Finite real | PInf | NInf | NaN

definition pow2 :: "int \<Rightarrow> real" where
  "pow2 e = (if 0 \<le> e then 2 ^ nat e else 1 / 2 ^ nat (- e))"

text \<open>
  The exponent of the last place of a magnitude \<open>q\<close> at precision \<open>p\<close>: starting from 0,
  it goes down while the significand has fewer than \<open>p\<close> bits (and stops at the
  exponent \<open>lo\<close> of the subnormal numbers), or up while the significand has more than
  \<open>p\<close> bits (and stops at the exponent \<open>hi\<close> of the largest finite numbers).
\<close>

function norm_down :: "nat \<Rightarrow> int \<Rightarrow> real \<Rightarrow> int \<Rightarrow> int" where
  "norm_down p lo q e =
     (if q < 2 ^ (p - 1) \<and> lo < e then norm_down p lo (q * 2) (e - 1) else e)"
  by pat_completeness auto
termination
  by (relation "measure (\<lambda>(p, lo, q, e). nat (e - lo))") auto

function norm_up :: "nat \<Rightarrow> int \<Rightarrow> real \<Rightarrow> int \<Rightarrow> int" where
  "norm_up p hi q e =
     (if 2 ^ p \<le> q \<and> e < hi then norm_up p hi (q / 2) (e + 1) else e)"
  by pat_completeness auto
termination
  by (relation "measure (\<lambda>(p, hi, q, e). nat (hi - e))") auto

declare norm_down.simps [simp del] norm_up.simps [simp del]

definition quantum :: "nat \<Rightarrow> int \<Rightarrow> int \<Rightarrow> real \<Rightarrow> int" where
  "quantum p lo hi x =
     (if 2 ^ p \<le> \<bar>x\<bar> then norm_up p hi \<bar>x\<bar> 0 else norm_down p lo \<bar>x\<bar> 0)"

text \<open>Rounding to the nearest integer, a tie going to the even one.\<close>

definition round_half_even :: "real \<Rightarrow> int" where
  "round_half_even q =
     (if q - of_int \<lfloor>q\<rfloor> < 1 / 2 then \<lfloor>q\<rfloor>
      else if 1 / 2 < q - of_int \<lfloor>q\<rfloor> then \<lfloor>q\<rfloor> + 1
      else if even \<lfloor>q\<rfloor> then \<lfloor>q\<rfloor> else \<lfloor>q\<rfloor> + 1)"

text \<open>
  Rounding of a real number to the format with \<open>p\<close> bits of precision and largest
  exponent \<open>emax\<close>, to nearest and ties to even: the significand is rounded at the
  exponent of the last place, and a result that reaches \<open>2 ^ (emax + 1)\<close> is an
  infinity.
\<close>

definition round_at :: "nat \<Rightarrow> int \<Rightarrow> real \<Rightarrow> int \<Rightarrow> ieee" where
  "round_at p hi x e =
     (if 2 ^ p * pow2 hi \<le> of_int (round_half_even (\<bar>x\<bar> / pow2 e)) * pow2 e
      then (if 0 < x then PInf else NInf)
      else Finite (sgn x * (of_int (round_half_even (\<bar>x\<bar> / pow2 e)) * pow2 e)))"

definition round_to :: "nat \<Rightarrow> int \<Rightarrow> real \<Rightarrow> ieee" where
  "round_to p emax x =
     (if x = 0 then Finite 0
      else round_at p (emax - int p + 1) x
             (quantum p (2 - emax - int p) (emax - int p + 1) x))"

text \<open>\<^verbatim>\<open>float\<close> is binary32 and \<^verbatim>\<open>double\<close> is binary64.\<close>

definition f32 :: "real \<Rightarrow> ieee" where
  "f32 = round_to 24 127"

definition f64 :: "real \<Rightarrow> ieee" where
  "f64 = round_to 53 1023"

text \<open>
  The operations, for a rounding \<open>r\<close> of the exact result. An infinity or a NaN among
  the operands is handled as IEEE 754 says.
\<close>

fun fp_neg :: "ieee \<Rightarrow> ieee" where
  "fp_neg (Finite x) = Finite (- x)"
| "fp_neg PInf = NInf"
| "fp_neg NInf = PInf"
| "fp_neg NaN = NaN"

fun fp_add :: "(real \<Rightarrow> ieee) \<Rightarrow> ieee \<Rightarrow> ieee \<Rightarrow> ieee" where
  "fp_add r (Finite x) (Finite y) = r (x + y)"
| "fp_add r NaN b = NaN"
| "fp_add r a NaN = NaN"
| "fp_add r PInf NInf = NaN"
| "fp_add r NInf PInf = NaN"
| "fp_add r PInf b = PInf"
| "fp_add r a PInf = PInf"
| "fp_add r NInf b = NInf"
| "fp_add r a NInf = NInf"

definition fp_sub :: "(real \<Rightarrow> ieee) \<Rightarrow> ieee \<Rightarrow> ieee \<Rightarrow> ieee" where
  "fp_sub r a b = fp_add r a (fp_neg b)"

fun fp_mul :: "(real \<Rightarrow> ieee) \<Rightarrow> ieee \<Rightarrow> ieee \<Rightarrow> ieee" where
  "fp_mul r (Finite x) (Finite y) = r (x * y)"
| "fp_mul r NaN b = NaN"
| "fp_mul r a NaN = NaN"
| "fp_mul r (Finite x) PInf = (if x = 0 then NaN else if 0 < x then PInf else NInf)"
| "fp_mul r (Finite x) NInf = (if x = 0 then NaN else if 0 < x then NInf else PInf)"
| "fp_mul r PInf (Finite y) = (if y = 0 then NaN else if 0 < y then PInf else NInf)"
| "fp_mul r NInf (Finite y) = (if y = 0 then NaN else if 0 < y then NInf else PInf)"
| "fp_mul r PInf PInf = PInf"
| "fp_mul r PInf NInf = NInf"
| "fp_mul r NInf PInf = NInf"
| "fp_mul r NInf NInf = PInf"

fun fp_div :: "(real \<Rightarrow> ieee) \<Rightarrow> ieee \<Rightarrow> ieee \<Rightarrow> ieee" where
  "fp_div r (Finite x) (Finite y) =
     (if y = 0 then (if x = 0 then NaN else if 0 < x then PInf else NInf) else r (x / y))"
| "fp_div r NaN b = NaN"
| "fp_div r a NaN = NaN"
| "fp_div r (Finite x) b = Finite 0"
| "fp_div r PInf (Finite y) = (if 0 \<le> y then PInf else NInf)"
| "fp_div r NInf (Finite y) = (if 0 \<le> y then NInf else PInf)"
| "fp_div r PInf PInf = NaN"
| "fp_div r PInf NInf = NaN"
| "fp_div r NInf PInf = NaN"
| "fp_div r NInf NInf = NaN"

text \<open>The conversion of a \<^verbatim>\<open>double\<close> to \<^verbatim>\<open>float\<close>.\<close>

fun to_float :: "ieee \<Rightarrow> ieee" where
  "to_float (Finite x) = f32 x"
| "to_float a = a"

fun is_finite :: "ieee \<Rightarrow> bool" where
  "is_finite (Finite x) = True"
| "is_finite a = False"

text \<open>The operations of \<^verbatim>\<open>double\<close>.\<close>

definition add_d :: "ieee \<Rightarrow> ieee \<Rightarrow> ieee" where
  "add_d = fp_add f64"

definition sub_d :: "ieee \<Rightarrow> ieee \<Rightarrow> ieee" where
  "sub_d = fp_sub f64"

definition mul_d :: "ieee \<Rightarrow> ieee \<Rightarrow> ieee" where
  "mul_d = fp_mul f64"

definition div_d :: "ieee \<Rightarrow> ieee \<Rightarrow> ieee" where
  "div_d = fp_div f64"

text \<open>
  \<^verbatim>\<open>sin\<close>, \<^verbatim>\<open>cos\<close> and \<^verbatim>\<open>atan2\<close> of the C library. On finite arguments they are taken
  to return the exact value (the rounding of the library is left out); at an infinity
  or a NaN they return what Annex F of the C standard gives. On real numbers, \<open>atan2\<close>
  is the angle in \<open>[-\<pi>, \<pi>]\<close> of the point \<open>(x, y)\<close>, and 0 at the origin.
\<close>

definition atan2 :: "real \<Rightarrow> real \<Rightarrow> real" where
  "atan2 y x =
     (if 0 < x then arctan (y / x)
      else if x < 0 then (if 0 \<le> y then arctan (y / x) + pi else arctan (y / x) - pi)
      else if 0 < y then pi / 2
      else if y < 0 then - (pi / 2)
      else 0)"

fun sin_d :: "ieee \<Rightarrow> ieee" where
  "sin_d (Finite x) = Finite (sin x)"
| "sin_d a = NaN"

fun cos_d :: "ieee \<Rightarrow> ieee" where
  "cos_d (Finite x) = Finite (cos x)"
| "cos_d a = NaN"

fun atan2_d :: "ieee \<Rightarrow> ieee \<Rightarrow> ieee" where
  "atan2_d (Finite y) (Finite x) = Finite (atan2 y x)"
| "atan2_d NaN b = NaN"
| "atan2_d a NaN = NaN"
| "atan2_d (Finite y) PInf = Finite 0"
| "atan2_d (Finite y) NInf = Finite (if 0 \<le> y then pi else - pi)"
| "atan2_d PInf (Finite x) = Finite (pi / 2)"
| "atan2_d NInf (Finite x) = Finite (- (pi / 2))"
| "atan2_d PInf PInf = Finite (pi / 4)"
| "atan2_d PInf NInf = Finite (3 * pi / 4)"
| "atan2_d NInf PInf = Finite (- (pi / 4))"
| "atan2_d NInf NInf = Finite (- (3 * pi / 4))"

text \<open>A heading is in range when it is a number between \<open>-\<pi>\<close> and \<open>\<pi>\<close>.\<close>

fun in_heading_range :: "ieee \<Rightarrow> bool" where
  "in_heading_range (Finite x) = (- pi \<le> x \<and> x \<le> pi)"
| "in_heading_range a = False"

section \<open>The kinematic transforms in the arithmetic of the code (config.h)\<close>

text \<open>
  The entries of a \<^verbatim>\<open>BLA::Matrix\<close> are \<^verbatim>\<open>float\<close>, the default element type of the
  library. The macros are decimal literals of type \<^verbatim>\<open>double\<close>; an expression of macros
  is evaluated in \<^verbatim>\<open>double\<close> and converted to \<^verbatim>\<open>float\<close> where it is stored in a matrix
  or passed as the factor of \<^verbatim>\<open>*=\<close>. A product of matrices adds up the products of the
  entries from left to right, each operation rounded to \<^verbatim>\<open>float\<close>.
\<close>

definition L_sum :: ieee where
  "L_sum = add_d (f64 L_X) (f64 L_Y)"

fun dot32 :: "ieee list \<Rightarrow> ieee list \<Rightarrow> ieee" where
  "dot32 (a # as) (b # bs) =
     foldl (\<lambda>s (x, y). fp_add f32 s (fp_mul f32 x y)) (fp_mul f32 a b) (zip as bs)"
| "dot32 as bs = Finite 0"

definition mat_vec32 :: "ieee list list \<Rightarrow> ieee list \<Rightarrow> ieee list" where
  "mat_vec32 m v = map (\<lambda>r. dot32 r v) m"

definition scale32 :: "ieee \<Rightarrow> ieee list \<Rightarrow> ieee list" where
  "scale32 c v = map (\<lambda>x. fp_mul f32 x c) v"

definition forwardKinematicsModel32 :: "ieee list list" where
  "forwardKinematicsModel32 =
     [[Finite 1, Finite (- 1), to_float (fp_neg L_sum)],
      [Finite 1, Finite 1, to_float L_sum],
      [Finite 1, Finite 1, to_float (fp_neg L_sum)],
      [Finite 1, Finite (- 1), to_float L_sum]]"

definition wheel_factor32 :: ieee where
  "wheel_factor32 = to_float (div_d (Finite 1) (f64 WHEELRADIUS))"

definition calculateWheelVelocity32 :: "ieee list \<Rightarrow> ieee list" where
  "calculateWheelVelocity32 robotVelocity =
     scale32 wheel_factor32 (mat_vec32 forwardKinematicsModel32 robotVelocity)"

definition inverseKinematicsModel32 :: "ieee list list" where
  "inverseKinematicsModel32 =
     [[Finite 1, Finite 1, Finite 1, Finite 1],
      [Finite (- 1), Finite 1, Finite 1, Finite (- 1)],
      [to_float (div_d (Finite (- 1)) L_sum), to_float (div_d (Finite 1) L_sum),
       to_float (div_d (Finite (- 1)) L_sum), to_float (div_d (Finite 1) L_sum)]]"

definition robot_factor32 :: ieee where
  "robot_factor32 = to_float (div_d (f64 WHEELRADIUS) (Finite 4))"

definition calculateRobotVelocity32 :: "ieee list \<Rightarrow> ieee list" where
  "calculateRobotVelocity32 wheelVelocity =
     scale32 robot_factor32 (mat_vec32 inverseKinematicsModel32 wheelVelocity)"

section \<open>Program state\<close>

type_synonym u16 = "16 word"
type_synonym u32 = "32 word"

text \<open>
  The four motors of core.cpp. Every driver, encoder and controller object carries the
  suffix of its motor (\<^verbatim>\<open>driver_M0\<close>, \<^verbatim>\<open>encoder_M0\<close>, \<^verbatim>\<open>controller_M0\<close>), so one
  datatype names them all.
\<close>

datatype motor = M0 | M1 | M2 | M3

text \<open>
  \<^verbatim>\<open>HalfQuadEncoder\<close> is declared in a header that is not part of the source. Only its
  two getters are used here: \<^verbatim>\<open>get_angle()\<close> and \<^verbatim>\<open>get_velocity()\<close> read the two fields
  of this record. Every \<^verbatim>\<open>double\<close> of core.cpp is a value of type \<open>ieee\<close>.
\<close>

record encoder =
  get_angle :: ieee
  get_velocity :: ieee

text \<open>\<^verbatim>\<open>PIDMotorController controller_Mi(driver_Mi, encoder_Mi)\<close>: the objects a controller is bound to.\<close>

record pid_motor_controller =
  ctrl_driver :: motor
  ctrl_encoder :: motor

definition controller_M0 :: pid_motor_controller where
  "controller_M0 = \<lparr>ctrl_driver = M0, ctrl_encoder = M0\<rparr>"

definition controller_M1 :: pid_motor_controller where
  "controller_M1 = \<lparr>ctrl_driver = M1, ctrl_encoder = M1\<rparr>"

definition controller_M2 :: pid_motor_controller where
  "controller_M2 = \<lparr>ctrl_driver = M2, ctrl_encoder = M2\<rparr>"

definition controller_M3 :: pid_motor_controller where
  "controller_M3 = \<lparr>ctrl_driver = M3, ctrl_encoder = M3\<rparr>"

definition motor_control_manager :: "pid_motor_controller list" where
  "motor_control_manager = [controller_M0, controller_M1, controller_M2, controller_M3]"

text \<open>\<^verbatim>\<open>Eigen::Vector3d\<close> and \<^verbatim>\<open>Eigen::Matrix<double, 3, 1>\<close>, with the entries \<^verbatim>\<open>v(0)\<close>, \<^verbatim>\<open>v(1)\<close>, \<^verbatim>\<open>v(2)\<close>.\<close>

record vector3d =
  e0 :: ieee
  e1 :: ieee
  e2 :: ieee

text \<open>\<^verbatim>\<open>geometry_msgs/Vector3\<close> and \<^verbatim>\<open>geometry_msgs/Twist\<close>.\<close>

record vector3 =
  vec_x :: ieee
  vec_y :: ieee
  vec_z :: ieee

record twist =
  tw_linear :: vector3
  tw_angular :: vector3

text \<open>
  The fields of \<^verbatim>\<open>nav_msgs/Odometry\<close> that core.cpp writes. Time stamps are left out:
  the session time of the agent is outside the model.
\<close>

record odometry =
  odom_frame_id :: string
  odom_child_frame_id :: string
  odom_position_x :: ieee
  odom_position_y :: ieee
  odom_orientation_w :: ieee
  odom_orientation_z :: ieee
  odom_linear_x :: ieee
  odom_linear_y :: ieee
  odom_angular_z :: ieee

text \<open>
  \<^verbatim>\<open>sensor_msgs/JointState\<close>. The \<^verbatim>\<open>data\<close> array of a sequence is a function from the index
  to the entry, with the \<^verbatim>\<open>size\<close> beside it: what \<^verbatim>\<open>malloc\<close> returns is not initialised, so
  the entries keep whatever value they had until they are assigned.
\<close>

record joint_state =
  js_frame_id :: string
  js_name :: "string list"
  js_position :: "nat \<Rightarrow> ieee"
  js_position_size :: nat
  js_velocity :: "nat \<Rightarrow> ieee"
  js_velocity_size :: nat

datatype message = OdomMessage odometry | JointStateMessage joint_state

text \<open>
  The mutable state of the program: the edge counters of config.h, the global objects
  of core.cpp, and the two things the outside sees, the control value last given to each
  motor driver and the messages published so far. \<open>latest_command\<close>,
  \<open>robot_velocity\<close> and \<open>update_calls\<close> belong to \<^verbatim>\<open>robot_controller\<close>: the command it
  stores, the velocity \<^verbatim>\<open>get_robot_velocity()\<close> returns and the number of calls of
  \<^verbatim>\<open>update()\<close>.
\<close>

record program_state =
  count_BL :: u16
  count_BR :: u16
  count_FL :: u16
  count_FR :: u16
  latest_command :: vector3d
  robot_velocity :: vector3d
  update_calls :: nat
  encoders :: "motor \<Rightarrow> encoder"
  motor_control :: "motor \<Rightarrow> ieee"
  last_time :: u32
  pose :: vector3d
  odom_msg :: odometry
  joint_state_msg :: joint_state
  published :: "message list"

section \<open>Encoder interrupt routines (config.h)\<close>

definition function_ISR_EC_BL :: "program_state \<Rightarrow> program_state" where
  "function_ISR_EC_BL s = s\<lparr>count_BL := count_BL s + 1\<rparr>"

definition function_ISR_EC_BR :: "program_state \<Rightarrow> program_state" where
  "function_ISR_EC_BR s = s\<lparr>count_BR := count_BR s + 1\<rparr>"

definition function_ISR_EC_FL :: "program_state \<Rightarrow> program_state" where
  "function_ISR_EC_FL s = s\<lparr>count_FL := count_FL s + 1\<rparr>"

definition function_ISR_EC_FR :: "program_state \<Rightarrow> program_state" where
  "function_ISR_EC_FR s = s\<lparr>count_FR := count_FR s + 1\<rparr>"

section \<open>The kinematic transforms as calls in a program state\<close>

text \<open>
  A C++ function may read and write every global, and a local variable holds whatever
  was in its memory until it is assigned. A call therefore works on the program state
  together with the local variables of the function, and the body is the sequence of
  its statements, each a step on that pair. The locals given to a call are the
  contents of the memory they are laid out in.
\<close>

record wheel_velocity_locals =
  cwv_robotVelocity :: "ieee list"
  cwv_wheelVelocity :: "ieee list"
  cwv_forwardKinematicsModel :: "ieee list list"

text \<open>\<^verbatim>\<open>BLA::Matrix<4, 3> forwardKinematicsModel = {...};\<close>\<close>

definition cwv_init_model ::
    "program_state \<times> wheel_velocity_locals \<Rightarrow> program_state \<times> wheel_velocity_locals" where
  "cwv_init_model c =
     (fst c, (snd c)\<lparr>cwv_forwardKinematicsModel := forwardKinematicsModel32\<rparr>)"

text \<open>\<^verbatim>\<open>wheelVelocity = forwardKinematicsModel * robotVelocity;\<close>\<close>

definition cwv_multiply ::
    "program_state \<times> wheel_velocity_locals \<Rightarrow> program_state \<times> wheel_velocity_locals" where
  "cwv_multiply c =
     (fst c, (snd c)\<lparr>cwv_wheelVelocity :=
        mat_vec32 (cwv_forwardKinematicsModel (snd c)) (cwv_robotVelocity (snd c))\<rparr>)"

text \<open>\<^verbatim>\<open>wheelVelocity *= 1 / WHEELRADIUS;\<close>\<close>

definition cwv_scale ::
    "program_state \<times> wheel_velocity_locals \<Rightarrow> program_state \<times> wheel_velocity_locals" where
  "cwv_scale c =
     (fst c, (snd c)\<lparr>cwv_wheelVelocity := scale32 wheel_factor32 (cwv_wheelVelocity (snd c))\<rparr>)"

text \<open>The call: the argument is bound, the statements run in order, \<^verbatim>\<open>wheelVelocity\<close> is returned.\<close>

definition calculateWheelVelocity_call ::
    "ieee list \<Rightarrow> program_state \<Rightarrow> wheel_velocity_locals \<Rightarrow> ieee list \<times> program_state" where
  "calculateWheelVelocity_call robotVelocity s memory =
     (let c = cwv_scale (cwv_multiply (cwv_init_model
                (s, memory\<lparr>cwv_robotVelocity := robotVelocity\<rparr>)))
      in (cwv_wheelVelocity (snd c), fst c))"

record robot_velocity_locals =
  crv_wheelVelocity :: "ieee list"
  crv_robotVelocity :: "ieee list"
  crv_inverseKinematicsModel :: "ieee list list"

text \<open>\<^verbatim>\<open>BLA::Matrix<3, 4> inverseKinematicsModel = {...};\<close>\<close>

definition crv_init_model ::
    "program_state \<times> robot_velocity_locals \<Rightarrow> program_state \<times> robot_velocity_locals" where
  "crv_init_model c =
     (fst c, (snd c)\<lparr>crv_inverseKinematicsModel := inverseKinematicsModel32\<rparr>)"

text \<open>\<^verbatim>\<open>robotVelocity = inverseKinematicsModel * wheelVelocity;\<close>\<close>

definition crv_multiply ::
    "program_state \<times> robot_velocity_locals \<Rightarrow> program_state \<times> robot_velocity_locals" where
  "crv_multiply c =
     (fst c, (snd c)\<lparr>crv_robotVelocity :=
        mat_vec32 (crv_inverseKinematicsModel (snd c)) (crv_wheelVelocity (snd c))\<rparr>)"

text \<open>\<^verbatim>\<open>robotVelocity *= WHEELRADIUS / 4;\<close>\<close>

definition crv_scale ::
    "program_state \<times> robot_velocity_locals \<Rightarrow> program_state \<times> robot_velocity_locals" where
  "crv_scale c =
     (fst c, (snd c)\<lparr>crv_robotVelocity := scale32 robot_factor32 (crv_robotVelocity (snd c))\<rparr>)"

definition calculateRobotVelocity_call ::
    "ieee list \<Rightarrow> program_state \<Rightarrow> robot_velocity_locals \<Rightarrow> ieee list \<times> program_state" where
  "calculateRobotVelocity_call wheelVelocity s memory =
     (let c = crv_scale (crv_multiply (crv_init_model
                (s, memory\<lparr>crv_wheelVelocity := wheelVelocity\<rparr>)))
      in (crv_robotVelocity (snd c), fst c))"

section \<open>The cmd_vel subscription (core.cpp)\<close>

text \<open>
  Modelled from the spec: \<^verbatim>\<open>VelocityController::set_latest_command\<close> is declared in
  velocity_controller.hpp, which is not part of the source. The spec says of it that it
  "simply overwrites the stored target; no queuing, no history".
\<close>

definition set_latest_command :: "vector3d \<Rightarrow> program_state \<Rightarrow> program_state" where
  "set_latest_command cmd s = s\<lparr>latest_command := cmd\<rparr>"

definition cmd_vel_subscription_callback :: "twist \<Rightarrow> program_state \<Rightarrow> program_state" where
  "cmd_vel_subscription_callback msg s =
     (let cmd = \<lparr>e0 = vec_x (tw_linear msg), e1 = vec_y (tw_linear msg),
                 e2 = vec_z (tw_angular msg)\<rparr>
      in set_latest_command cmd s)"

section \<open>Message initialisation in setup() (core.cpp)\<close>

definition joint_names :: "string list" where
  "joint_names =
     [''wheel_front_left_joint'', ''wheel_front_right_joint'',
      ''wheel_back_left_joint'', ''wheel_back_right_joint'']"

text \<open>The assignments to \<^verbatim>\<open>odom_msg\<close> and \<^verbatim>\<open>joint_state_msg\<close> that precede the test loop of setup().\<close>

definition init_messages :: "program_state \<Rightarrow> program_state" where
  "init_messages s =
     s\<lparr>odom_msg := (odom_msg s)\<lparr>odom_frame_id := ''odom'', odom_child_frame_id := ''base_link''\<rparr>,
       joint_state_msg := (joint_state_msg s)
         \<lparr>js_frame_id := ''base_link'', js_name := joint_names,
          js_position_size := 4, js_velocity_size := 4\<rparr>\<rparr>"

section \<open>One call of loop() (core.cpp)\<close>

text \<open>
  What one call of loop() takes from outside the source: the message the executor may
  hand to the subscription callback, what \<^verbatim>\<open>robot_controller.update()\<close> leaves in the
  encoders and in the controller (the class is not part of the source), and the reading
  of \<^verbatim>\<open>millis()\<close>.
\<close>

record loop_input =
  in_cmd_vel :: "twist option"
  in_encoders :: "motor \<Rightarrow> encoder"
  in_robot_velocity :: vector3d
  in_now :: u32

definition spin_some :: "twist option \<Rightarrow> program_state \<Rightarrow> program_state" where
  "spin_some incoming s =
     (case incoming of None \<Rightarrow> s | Some msg \<Rightarrow> cmd_vel_subscription_callback msg s)"

definition robot_controller_update :: "loop_input \<Rightarrow> program_state \<Rightarrow> program_state" where
  "robot_controller_update inp s =
     s\<lparr>update_calls := update_calls s + 1, encoders := in_encoders inp,
       robot_velocity := in_robot_velocity inp\<rparr>"

text \<open>The elapsed time \<^verbatim>\<open>(now - last_time) / 1000.0\<close>, the difference taken in \<^verbatim>\<open>unsigned long\<close>.\<close>

definition elapsed_seconds :: "u32 \<Rightarrow> u32 \<Rightarrow> ieee" where
  "elapsed_seconds now before = div_d (Finite (real (unat (now - before)))) (Finite 1000)"

text \<open>The heading after \<^verbatim>\<open>pose(2) += robot_velocity(2) * dt\<close>, before it is normalised.\<close>

definition integrated_heading :: "vector3d \<Rightarrow> ieee \<Rightarrow> vector3d \<Rightarrow> ieee" where
  "integrated_heading rv dt p = add_d (e2 p) (mul_d (e2 rv) dt)"

text \<open>
  The odometry step, in the operations of \<^verbatim>\<open>double\<close>. The three entries of \<^verbatim>\<open>pose\<close> are
  assigned in order, and the heading that the first two assignments read is the one
  from before the step.
\<close>

definition integrate_pose :: "vector3d \<Rightarrow> ieee \<Rightarrow> vector3d \<Rightarrow> vector3d" where
  "integrate_pose rv dt p =
     (let p0 = add_d (e0 p)
                 (sub_d (mul_d (mul_d (e0 rv) (cos_d (e2 p))) dt)
                        (mul_d (mul_d (e1 rv) (sin_d (e2 p))) dt));
          p1 = add_d (e1 p)
                 (add_d (mul_d (mul_d (e0 rv) (sin_d (e2 p))) dt)
                        (mul_d (mul_d (e1 rv) (cos_d (e2 p))) dt));
          p2 = integrated_heading rv dt p
      in \<lparr>e0 = p0, e1 = p1, e2 = atan2_d (sin_d p2) (cos_d p2)\<rparr>)"

definition fill_odom :: "vector3d \<Rightarrow> vector3d \<Rightarrow> odometry \<Rightarrow> odometry" where
  "fill_odom p rv m =
     m\<lparr>odom_position_x := e0 p, odom_position_y := e1 p,
       odom_orientation_w := cos_d (div_d (e2 p) (Finite 2)),
       odom_orientation_z := sin_d (div_d (e2 p) (Finite 2)),
       odom_linear_x := e0 rv, odom_linear_y := e1 rv, odom_angular_z := e2 rv\<rparr>"

definition update_joint_state :: "program_state \<Rightarrow> program_state" where
  "update_joint_state s =
     s\<lparr>joint_state_msg := (joint_state_msg s)
        \<lparr>js_position := (js_position (joint_state_msg s))
           (0 := get_angle (encoders s M0), 1 := get_angle (encoders s M1),
            2 := get_angle (encoders s M2), 3 := get_angle (encoders s M3)),
         js_velocity := (js_velocity (joint_state_msg s))
           (0 := get_velocity (encoders s M0), 1 := get_velocity (encoders s M1),
            2 := get_velocity (encoders s M2), 3 := get_velocity (encoders s M3))\<rparr>\<rparr>"

definition publish :: "message \<Rightarrow> program_state \<Rightarrow> program_state" where
  "publish m s = s\<lparr>published := published s @ [m]\<rparr>"

text \<open>
  loop(): the executor, the controller update, the odometry step on the unsigned
  difference of two \<^verbatim>\<open>millis()\<close> readings, and the two publications. The synchronisation
  with the agent and the serial output are left out.
\<close>

definition loop :: "loop_input \<Rightarrow> program_state \<Rightarrow> program_state" where
  "loop inp s =
     (let s1 = spin_some (in_cmd_vel inp) s;
          s2 = robot_controller_update inp s1;
          rv = robot_velocity s2;
          now = in_now inp;
          dt = elapsed_seconds now (last_time s2);
          s3 = s2\<lparr>last_time := now, pose := integrate_pose rv dt (pose s2)\<rparr>;
          s4 = s3\<lparr>odom_msg := fill_odom (pose s3) rv (odom_msg s3)\<rparr>;
          s5 = publish (OdomMessage (odom_msg s4)) s4;
          s6 = update_joint_state s5
      in publish (JointStateMessage (joint_state_msg s6)) s6)"

section \<open>The test loop at the end of setup() (core.cpp)\<close>

text \<open>
  The local variables of setup() that the test loop works on. The local \<^verbatim>\<open>last_time\<close>
  hides the global of the same name, so it is a field of its own here.
\<close>

record test_locals =
  t_last_time :: u32
  last_rotation_step :: u32
  wanted_angle :: ieee

text \<open>
  What one iteration takes from outside the source: the encoder after
  \<^verbatim>\<open>encoder_M0.update()\<close>, the response of the PID controller (its class is not part of
  the source) to target, measurement and sampling time, and the four clock readings in
  the order of the calls.
\<close>

record test_input =
  in_encoder_M0 :: encoder
  in_micros_sample :: u32
  in_pid_update :: "ieee \<Rightarrow> ieee \<Rightarrow> ieee \<Rightarrow> ieee"
  in_millis_check :: u32
  in_millis_step :: u32
  in_micros_end :: u32

text \<open>
  \<^verbatim>\<open>PI\<close> is the macro of Arduino.h, a decimal literal of type \<^verbatim>\<open>double\<close>. The variable
  \<^verbatim>\<open>wanted_angle\<close> is a \<^verbatim>\<open>float\<close>: the sum \<^verbatim>\<open>wanted_angle + PI / 2\<close> is taken in
  \<^verbatim>\<open>double\<close> and converted back.
\<close>

definition PI :: ieee where
  "PI = f64 3.1415926535897932384626433832795"

definition position_test_body ::
    "test_input \<Rightarrow> test_locals \<Rightarrow> program_state \<Rightarrow> test_locals \<times> program_state" where
  "position_test_body inp l s =
     (let s1 = s\<lparr>encoders := (encoders s)(M0 := in_encoder_M0 inp)\<rparr>;
          sampling_time =
            div_d (Finite (real (unat (in_micros_sample inp - t_last_time l)))) (Finite 1000000);
          control = in_pid_update inp PI (get_angle (encoders s1 M0)) sampling_time;
          l1 = (if 5000 < unat (in_millis_check inp - last_rotation_step l)
                then l\<lparr>last_rotation_step := in_millis_step inp,
                       wanted_angle :=
                         to_float (add_d (wanted_angle l) (div_d PI (Finite 2)))\<rparr>
                else l);
          s2 = s1\<lparr>motor_control := (motor_control s1)(M0 := control)\<rparr>
      in (l1\<lparr>t_last_time := in_micros_end inp\<rparr>, s2))"

section \<open>The program: setup(), then loop() for ever\<close>

text \<open>
  The Arduino runtime calls setup() once and, when it has returned, loop() again and
  again. A control point says where the program is: in one of the seven retry loops of
  setup(), in its test loop (with the local variables), or past the return of setup(),
  where the calls of loop() take place.
\<close>

datatype init_call =
  SupportInit | NodeInit | OdomPublisherInit | JointStatePublisherInit
  | CmdVelSubscriptionInit | ExecutorInit | ExecutorAddSubscription

datatype control = InSetupInit init_call | InPositionTest test_locals | InLoop

record config =
  point :: control
  globals :: program_state

text \<open>
  What the environment decides for one step: whether the micro-ROS call of a retry loop
  returns \<^verbatim>\<open>RCL_RET_OK\<close>, the readings of \<^verbatim>\<open>micros()\<close> and \<^verbatim>\<open>millis()\<close> that initialise the
  locals of the test loop, and the inputs of one test iteration and of one call of loop().
\<close>

record env_event =
  rcl_ok :: bool
  ev_micros :: u32
  ev_millis :: u32
  ev_test :: test_input
  ev_loop :: loop_input

fun next_init :: "init_call \<Rightarrow> init_call option" where
  "next_init SupportInit = Some NodeInit"
| "next_init NodeInit = Some OdomPublisherInit"
| "next_init OdomPublisherInit = Some JointStatePublisherInit"
| "next_init JointStatePublisherInit = Some CmdVelSubscriptionInit"
| "next_init CmdVelSubscriptionInit = Some ExecutorInit"
| "next_init ExecutorInit = Some ExecutorAddSubscription"
| "next_init ExecutorAddSubscription = None"

text \<open>
  One step: one evaluation of the condition of a retry loop (a failed call stays in the
  loop), one iteration of the test loop, or one call of loop(). The test loop is
  \<^verbatim>\<open>while (true)\<close> without \<^verbatim>\<open>break\<close> or \<^verbatim>\<open>return\<close>: its step stays at the test loop.
\<close>

definition step :: "env_event \<Rightarrow> config \<Rightarrow> config" where
  "step ev c =
     (case point c of
        InSetupInit i \<Rightarrow>
          (if rcl_ok ev
           then (case next_init i of
                   Some i' \<Rightarrow> c\<lparr>point := InSetupInit i'\<rparr>
                 | None \<Rightarrow>
                     \<lparr>point = InPositionTest
                        \<lparr>t_last_time = ev_micros ev, last_rotation_step = ev_millis ev,
                         wanted_angle = Finite 0\<rparr>,
                      globals = init_messages (globals c)\<rparr>)
           else c)
      | InPositionTest l \<Rightarrow>
          (case position_test_body (ev_test ev) l (globals c) of
             (l', s') \<Rightarrow> \<lparr>point = InPositionTest l', globals = s'\<rparr>)
      | InLoop \<Rightarrow> \<lparr>point = InLoop, globals = loop (ev_loop ev) (globals c)\<rparr>)"

fun run :: "env_event list \<Rightarrow> config \<Rightarrow> config" where
  "run [] c = c"
| "run (ev # evs) c = run evs (step ev c)"

definition boot :: "program_state \<Rightarrow> config" where
  "boot s = \<lparr>point = InSetupInit SupportInit, globals = s\<rparr>"

text \<open>
  The part of the state that, of all the functions of core.cpp, only loop() writes: the
  number of controller updates, the pose and the published messages.
\<close>

definition loop_owned :: "program_state \<Rightarrow> nat \<times> vector3d \<times> message list" where
  "loop_owned s = (update_calls s, pose s, published s)"

section \<open>The program at power-on\<close>

text \<open>
  The globals as they are initialised: the counters and \<^verbatim>\<open>last_time\<close> are 0, \<^verbatim>\<open>pose\<close> is
  \<^verbatim>\<open>Vector3d::Zero()\<close>, the messages are zero-initialised and nothing has been published.
\<close>

definition zero3d :: vector3d where
  "zero3d = \<lparr>e0 = Finite 0, e1 = Finite 0, e2 = Finite 0\<rparr>"

definition power_on :: program_state where
  "power_on =
     \<lparr>count_BL = 0, count_BR = 0, count_FL = 0, count_FR = 0,
      latest_command = zero3d, robot_velocity = zero3d, update_calls = 0,
      encoders = (\<lambda>m. \<lparr>get_angle = Finite 0, get_velocity = Finite 0\<rparr>),
      motor_control = (\<lambda>m. Finite 0),
      last_time = 0, pose = zero3d,
      odom_msg = \<lparr>odom_frame_id = [], odom_child_frame_id = [],
        odom_position_x = Finite 0, odom_position_y = Finite 0,
        odom_orientation_w = Finite 0, odom_orientation_z = Finite 0,
        odom_linear_x = Finite 0, odom_linear_y = Finite 0, odom_angular_z = Finite 0\<rparr>,
      joint_state_msg = \<lparr>js_frame_id = [], js_name = [],
        js_position = (\<lambda>i. Finite 0), js_position_size = 0,
        js_velocity = (\<lambda>i. Finite 0), js_velocity_size = 0\<rparr>,
      published = []\<rparr>"

text \<open>
  A call of loop() ten seconds after power-on, with no message waiting and the
  controller reporting the angular velocity \<open>w\<close>.
\<close>

definition turning_input :: "ieee \<Rightarrow> loop_input" where
  "turning_input w =
     \<lparr>in_cmd_vel = None, in_encoders = encoders power_on,
      in_robot_velocity = \<lparr>e0 = Finite 0, e1 = Finite 0, e2 = w\<rparr>, in_now = 10000\<rparr>"

section \<open>Kinematics: the transforms in components\<close>

lemma mat_vec_forward:
  "mat_vec forwardKinematicsModel [vx, vy, w] =
     [vx - vy - (L_X + L_Y) * w, vx + vy + (L_X + L_Y) * w,
      vx + vy - (L_X + L_Y) * w, vx - vy + (L_X + L_Y) * w]"
  by (simp add: forwardKinematicsModel_def mat_vec_def dot_def algebra_simps)

lemma calculateWheelVelocity_components:
  "calculateWheelVelocity [vx, vy, w] =
     [(vx - vy - (L_X + L_Y) * w) * (1 / WHEELRADIUS),
      (vx + vy + (L_X + L_Y) * w) * (1 / WHEELRADIUS),
      (vx + vy - (L_X + L_Y) * w) * (1 / WHEELRADIUS),
      (vx - vy + (L_X + L_Y) * w) * (1 / WHEELRADIUS)]"
  unfolding calculateWheelVelocity_def mat_vec_forward by (simp add: scale_def)

lemma mat_vec_inverse:
  "mat_vec inverseKinematicsModel [a, b, c, d] =
     [a + b + c + d, - a + b + c - d,
      - a / (L_X + L_Y) + b / (L_X + L_Y) - c / (L_X + L_Y) + d / (L_X + L_Y)]"
  by (simp add: inverseKinematicsModel_def mat_vec_def dot_def algebra_simps)

lemma calculateRobotVelocity_components:
  "calculateRobotVelocity [a, b, c, d] =
     [(a + b + c + d) * (WHEELRADIUS / 4),
      (- a + b + c - d) * (WHEELRADIUS / 4),
      (- a / (L_X + L_Y) + b / (L_X + L_Y) - c / (L_X + L_Y) + d / (L_X + L_Y))
        * (WHEELRADIUS / 4)]"
  unfolding calculateRobotVelocity_def mat_vec_inverse by (simp add: scale_def)

lemma geometry_nonzero: "WHEELRADIUS \<noteq> 0" "L_X + L_Y \<noteq> 0"
  by (simp_all add: WHEELRADIUS_def L_X_def L_Y_def)

text \<open>The three equations of the round trip, for any radius \<open>R\<close> and offset \<open>L\<close> other than 0.\<close>

lemma round_trip_vx:
  fixes R L :: real
  assumes "R \<noteq> 0"
  shows "((vx - vy - L * w) * (1 / R) + (vx + vy + L * w) * (1 / R)
          + (vx + vy - L * w) * (1 / R) + (vx - vy + L * w) * (1 / R)) * (R / 4) = vx"
  using assms by (simp add: field_simps)

lemma round_trip_vy:
  fixes R L :: real
  assumes "R \<noteq> 0"
  shows "(- ((vx - vy - L * w) * (1 / R)) + (vx + vy + L * w) * (1 / R)
          + (vx + vy - L * w) * (1 / R) - (vx - vy + L * w) * (1 / R)) * (R / 4) = vy"
  using assms by (simp add: field_simps)

lemma round_trip_w:
  fixes R L :: real
  assumes "R \<noteq> 0" and "L \<noteq> 0"
  shows "(- ((vx - vy - L * w) * (1 / R)) / L + (vx + vy + L * w) * (1 / R) / L
          - (vx + vy - L * w) * (1 / R) / L + (vx - vy + L * w) * (1 / R) / L) * (R / 4) = w"
  using assms by (simp add: field_simps)

text \<open>
  C1, amended. In exact arithmetic, body to wheel and back is the identity: for every
  body velocity \<open>(vx, vy, w)\<close>, \<open>calculateRobotVelocity\<close> applied to
  \<open>calculateWheelVelocity\<close> of it gives \<open>(vx, vy, w)\<close> again, in the real numbers
  and so in the rationals. Nothing is said of the \<^verbatim>\<open>float\<close> arithmetic of the code,
  where the round trip is not within \<open>1e-9\<close> for every vector.
\<close>

theorem kinematics_round_trip:
  "calculateRobotVelocity (calculateWheelVelocity [vx, vy, w]) = [vx, vy, w]"
  unfolding calculateWheelVelocity_components calculateRobotVelocity_components
  using round_trip_vx [OF geometry_nonzero(1)] round_trip_vy [OF geometry_nonzero(1)]
    round_trip_w [OF geometry_nonzero]
  by simp

text \<open>
  C5. For the command \<open>(1, 0, 0)\<close> and the wheel radius 0.075 of config.h, the inverse
  transform gives four equal positive wheel velocities \<open>1 / 0.075\<close>, and the forward
  transform maps these four values back to \<open>(1, 0, 0)\<close>.
\<close>

theorem forward_command_scenario:
  "WHEELRADIUS = 0.075
   \<and> calculateWheelVelocity [1, 0, 0] = [1 / 0.075, 1 / 0.075, 1 / 0.075, 1 / 0.075]
   \<and> (0::real) < 1 / 0.075
   \<and> calculateRobotVelocity [1 / 0.075, 1 / 0.075, 1 / 0.075, 1 / 0.075] = [1, 0, 0]"
  by (simp add: calculateWheelVelocity_components calculateRobotVelocity_components
      WHEELRADIUS_def L_X_def L_Y_def)

section \<open>Kinematics: signs under rotation\<close>

text \<open>
  C3, as stated, fails. The joint names put the front-left wheel at index 0 and the
  back-right wheel at index 3; under the rotation command \<open>(0, 0, 1)\<close> the first turns
  backwards and the second forwards, so the two do not share a sign.
\<close>

theorem rotation_sign_counterexample:
  "joint_names ! 0 = ''wheel_front_left_joint''
   \<and> joint_names ! 3 = ''wheel_back_right_joint''
   \<and> calculateWheelVelocity [0, 0, 1] ! 0 < 0
   \<and> 0 < calculateWheelVelocity [0, 0, 1] ! 3"
  by (simp add: joint_names_def calculateWheelVelocity_components
      WHEELRADIUS_def L_X_def L_Y_def)

text \<open>
  C3, amended. Under a pure rotation command with \<open>w > 0\<close> the signs pair the wheels by
  side: front-left and back-left (indices 0 and 2) are negative, front-right and
  back-right (indices 1 and 3) are positive.
\<close>

theorem rotation_sign_by_side:
  assumes "0 < w"
  shows "joint_names = [''wheel_front_left_joint'', ''wheel_front_right_joint'',
                        ''wheel_back_left_joint'', ''wheel_back_right_joint'']
         \<and> calculateWheelVelocity [0, 0, w] ! 0 < 0
         \<and> 0 < calculateWheelVelocity [0, 0, w] ! 1
         \<and> calculateWheelVelocity [0, 0, w] ! 2 < 0
         \<and> 0 < calculateWheelVelocity [0, 0, w] ! 3"
  using assms
  by (simp add: joint_names_def calculateWheelVelocity_components
      WHEELRADIUS_def L_X_def L_Y_def)

theorem rotation_sign_by_side_witness:
  "(0::real) < 2
   \<and> calculateWheelVelocity [0, 0, 2] ! 0 < 0
   \<and> 0 < calculateWheelVelocity [0, 0, 2] ! 1
   \<and> calculateWheelVelocity [0, 0, 2] ! 2 < 0
   \<and> 0 < calculateWheelVelocity [0, 0, 2] ! 3"
  using rotation_sign_by_side [of 2] by simp

section \<open>Kinematics: the coefficient of the angular velocity\<close>










section \<open>Kinematics: the round trip in the arithmetic of the code\<close>

lemmas fp_eval =
  f32_def f64_def round_to_def round_at_def round_half_even_def pow2_def quantum_def
  norm_down.simps norm_up.simps add_d_def sub_d_def mul_d_def div_d_def fp_sub_def

lemma double_macros:
  "f64 WHEELRADIUS = Finite (5404319552844595 / 72057594037927936)"
  "f64 L_X = Finite (3422735716801577 / 9007199254740992)"
  "f64 L_Y = Finite (5764607523034235 / 18014398509481984)"
  by (simp_all add: WHEELRADIUS_def L_X_def L_Y_def fp_eval)

lemma L_sum_value: "L_sum = Finite (3152519739159347 / 4503599627370496)"
  unfolding L_sum_def double_macros by (simp add: fp_eval)

lemma wheel_factor32_value: "wheel_factor32 = Finite (13981013 / 1048576)"
  unfolding wheel_factor32_def double_macros by (simp add: fp_eval)

lemma robot_factor32_value: "robot_factor32 = Finite (5033165 / 268435456)"
  unfolding robot_factor32_def double_macros by (simp add: fp_eval)

lemma forwardKinematicsModel32_value:
  "forwardKinematicsModel32 =
     [[Finite 1, Finite (- 1), Finite (- (11744051 / 16777216))],
      [Finite 1, Finite 1, Finite (11744051 / 16777216)],
      [Finite 1, Finite 1, Finite (- (11744051 / 16777216))],
      [Finite 1, Finite (- 1), Finite (11744051 / 16777216)]]"
  unfolding forwardKinematicsModel32_def L_sum_value by (simp add: fp_eval)

lemma inverseKinematicsModel32_value:
  "inverseKinematicsModel32 =
     [[Finite 1, Finite 1, Finite 1, Finite 1],
      [Finite (- 1), Finite 1, Finite 1, Finite (- 1)],
      [Finite (- (5991863 / 4194304)), Finite (5991863 / 4194304),
       Finite (- (5991863 / 4194304)), Finite (5991863 / 4194304)]]"
  unfolding inverseKinematicsModel32_def L_sum_value by (simp add: fp_eval)

lemma wheel32_at_1000_2000_500:
  "calculateWheelVelocity32 [Finite 1000, Finite 2000, Finite (- 500)] =
     [Finite (- (4437333 / 512)), Finite (9045333 / 256), Finite (5717333 / 128),
      Finite (- 18000)]"
  unfolding calculateWheelVelocity32_def forwardKinematicsModel32_value wheel_factor32_value
  by (simp add: mat_vec32_def scale32_def fp_eval)

lemma robot32_at_1000_2000_500:
  "calculateRobotVelocity32
     [Finite (- (4437333 / 512)), Finite (9045333 / 256), Finite (5717333 / 128),
      Finite (- 18000)] =
     [Finite (16383999 / 16384), Finite 2000, Finite (- 500)]"
  unfolding calculateRobotVelocity32_def inverseKinematicsModel32_value robot_factor32_value
  by (simp add: mat_vec32_def scale32_def fp_eval)

text \<open>
  The forward command of C5 in the arithmetic of the code: four times the \<^verbatim>\<open>float\<close>
  nearest to \<open>1 / 0.075\<close>, and back to \<open>(1, 0, 0)\<close>.
\<close>

lemma forward_command_binary32:
  "calculateWheelVelocity32 [Finite 1, Finite 0, Finite 0] =
     [wheel_factor32, wheel_factor32, wheel_factor32, wheel_factor32]
   \<and> calculateRobotVelocity32 [wheel_factor32, wheel_factor32, wheel_factor32, wheel_factor32] =
     [Finite 1, Finite 0, Finite 0]"
  unfolding calculateWheelVelocity32_def calculateRobotVelocity32_def
    forwardKinematicsModel32_value inverseKinematicsModel32_value
    wheel_factor32_value robot_factor32_value
  by (simp add: mat_vec32_def scale32_def fp_eval)

text \<open>
  C1, as stated, fails. In the \<^verbatim>\<open>float\<close> arithmetic of the code the body velocity
  \<open>(1000, 2000, -500)\<close> comes back as \<open>(16383999 / 16384, 2000, -500)\<close>: the first
  entry is off by \<open>2 ^ -14\<close>, about \<open>6.1e-5\<close>, which is more than \<open>1e-9\<close>.
\<close>

theorem round_trip_binary32_counterexample:
  "calculateRobotVelocity32 (calculateWheelVelocity32 [Finite 1000, Finite 2000, Finite (- 500)])
     = [Finite (16383999 / 16384), Finite 2000, Finite (- 500)]
   \<and> (1 / 10 ^ 9 :: real) < \<bar>16383999 / 16384 - 1000\<bar>"
  unfolding wheel32_at_1000_2000_500 robot32_at_1000_2000_500 by simp

section \<open>The kinematic transforms and the program state\<close>

lemma calculateWheelVelocity_call_result:
  "calculateWheelVelocity_call v s memory = (calculateWheelVelocity32 v, s)"
  by (simp add: calculateWheelVelocity_call_def cwv_scale_def cwv_multiply_def
      cwv_init_model_def calculateWheelVelocity32_def Let_def)

lemma calculateRobotVelocity_call_result:
  "calculateRobotVelocity_call u s memory = (calculateRobotVelocity32 u, s)"
  by (simp add: calculateRobotVelocity_call_def crv_scale_def crv_multiply_def
      crv_init_model_def calculateRobotVelocity32_def Let_def)

text \<open>
  C9. The two transforms neither read nor write mutable state: called with the same
  vector in any two program states, and with any contents of the memory of their
  locals, they return the same result, and each leaves the program state it was called
  in as it was.
\<close>

theorem kinematics_stateless:
  "fst (calculateWheelVelocity_call v s memory) = fst (calculateWheelVelocity_call v s' memory')
   \<and> snd (calculateWheelVelocity_call v s memory) = s
   \<and> fst (calculateRobotVelocity_call u s store) = fst (calculateRobotVelocity_call u s' store')
   \<and> snd (calculateRobotVelocity_call u s store) = s"
  by (simp add: calculateWheelVelocity_call_def cwv_scale_def cwv_multiply_def
      cwv_init_model_def calculateRobotVelocity_call_def crv_scale_def crv_multiply_def
      crv_init_model_def Let_def)

section \<open>The subscription callback\<close>

text \<open>
  C6. After the callback the stored command is \<open>(linear.x, linear.y, angular.z)\<close> of the
  message. The other three components of the message do not matter, the command stored
  before leaves no trace, and nothing but the stored command changes (so nothing is
  queued or recorded).
\<close>

theorem callback_overwrites_command:
  "latest_command (cmd_vel_subscription_callback msg s) =
      \<lparr>e0 = vec_x (tw_linear msg), e1 = vec_y (tw_linear msg), e2 = vec_z (tw_angular msg)\<rparr>
   \<and> cmd_vel_subscription_callback
        (msg\<lparr>tw_linear := (tw_linear msg)\<lparr>vec_z := a\<rparr>,
             tw_angular := (tw_angular msg)\<lparr>vec_x := b, vec_y := c\<rparr>\<rparr>) s
      = cmd_vel_subscription_callback msg s
   \<and> cmd_vel_subscription_callback msg (s\<lparr>latest_command := old\<rparr>)
      = cmd_vel_subscription_callback msg s
   \<and> (cmd_vel_subscription_callback msg s)\<lparr>latest_command := latest_command s\<rparr> = s"
  by (simp add: cmd_vel_subscription_callback_def set_latest_command_def)

section \<open>The interrupt routines\<close>

lemma u16_increment: "unat (n + 1 :: u16) = (unat n + 1) mod 65536"
  by (simp add: unat_word_ariths)

lemma isr_BL_effect:
  "count_BL (function_ISR_EC_BL s) = count_BL s + 1
   \<and> (function_ISR_EC_BL s)\<lparr>count_BL := count_BL s\<rparr> = s"
  by (simp add: function_ISR_EC_BL_def)

lemma isr_BR_effect:
  "count_BR (function_ISR_EC_BR s) = count_BR s + 1
   \<and> (function_ISR_EC_BR s)\<lparr>count_BR := count_BR s\<rparr> = s"
  by (simp add: function_ISR_EC_BR_def)

lemma isr_FL_effect:
  "count_FL (function_ISR_EC_FL s) = count_FL s + 1
   \<and> (function_ISR_EC_FL s)\<lparr>count_FL := count_FL s\<rparr> = s"
  by (simp add: function_ISR_EC_FL_def)

lemma isr_FR_effect:
  "count_FR (function_ISR_EC_FR s) = count_FR s + 1
   \<and> (function_ISR_EC_FR s)\<lparr>count_FR := count_FR s\<rparr> = s"
  by (simp add: function_ISR_EC_FR_def)

text \<open>
  C7. Each interrupt routine adds one to the counter of its own wheel (in the arithmetic
  of \<^verbatim>\<open>uint16_t\<close>, where 65535 is followed by 0) and changes nothing else: putting the
  old value of that counter back gives the state before the call.
\<close>

theorem isr_increments_own_counter_only:
  "(count_BL (function_ISR_EC_BL s) = count_BL s + 1
      \<and> unat (count_BL (function_ISR_EC_BL s)) = (unat (count_BL s) + 1) mod 65536
      \<and> (function_ISR_EC_BL s)\<lparr>count_BL := count_BL s\<rparr> = s)
   \<and> (count_BR (function_ISR_EC_BR s) = count_BR s + 1
      \<and> unat (count_BR (function_ISR_EC_BR s)) = (unat (count_BR s) + 1) mod 65536
      \<and> (function_ISR_EC_BR s)\<lparr>count_BR := count_BR s\<rparr> = s)
   \<and> (count_FL (function_ISR_EC_FL s) = count_FL s + 1
      \<and> unat (count_FL (function_ISR_EC_FL s)) = (unat (count_FL s) + 1) mod 65536
      \<and> (function_ISR_EC_FL s)\<lparr>count_FL := count_FL s\<rparr> = s)
   \<and> (count_FR (function_ISR_EC_FR s) = count_FR s + 1
      \<and> unat (count_FR (function_ISR_EC_FR s)) = (unat (count_FR s) + 1) mod 65536
      \<and> (function_ISR_EC_FR s)\<lparr>count_FR := count_FR s\<rparr> = s)"
  using isr_BL_effect [of s] isr_BR_effect [of s] isr_FL_effect [of s] isr_FR_effect [of s]
  by (simp only: u16_increment simp_thms)

section \<open>loop(): effects\<close>

lemma spin_some_frame:
  "update_calls (spin_some m s) = update_calls s"
  "published (spin_some m s) = published s"
  "pose (spin_some m s) = pose s"
  "last_time (spin_some m s) = last_time s"
  "joint_state_msg (spin_some m s) = joint_state_msg s"
  by (simp_all add: spin_some_def cmd_vel_subscription_callback_def set_latest_command_def
      split: option.split)

lemma loop_update_calls: "update_calls (loop inp s) = update_calls s + 1"
  by (simp add: loop_def Let_def publish_def update_joint_state_def robot_controller_update_def
      spin_some_frame)

lemma loop_published: "length (published (loop inp s)) = length (published s) + 2"
  by (simp add: loop_def Let_def publish_def update_joint_state_def robot_controller_update_def
      spin_some_frame)

lemma loop_encoders: "encoders (loop inp s) = in_encoders inp"
  by (simp add: loop_def Let_def publish_def update_joint_state_def robot_controller_update_def)

lemma loop_pose:
  "pose (loop inp s) =
     integrate_pose (in_robot_velocity inp) (elapsed_seconds (in_now inp) (last_time s)) (pose s)"
  by (simp add: loop_def Let_def publish_def update_joint_state_def robot_controller_update_def
      spin_some_frame)

lemma loop_joint_state_msg:
  "joint_state_msg (loop inp s) =
     (joint_state_msg s)
       \<lparr>js_position := (js_position (joint_state_msg s))
          (0 := get_angle (in_encoders inp M0), 1 := get_angle (in_encoders inp M1),
           2 := get_angle (in_encoders inp M2), 3 := get_angle (in_encoders inp M3)),
        js_velocity := (js_velocity (joint_state_msg s))
          (0 := get_velocity (in_encoders inp M0), 1 := get_velocity (in_encoders inp M1),
           2 := get_velocity (in_encoders inp M2), 3 := get_velocity (in_encoders inp M3))\<rparr>"
  by (simp add: loop_def Let_def publish_def update_joint_state_def robot_controller_update_def
      spin_some_frame)

lemma loop_last_published:
  "last (published (loop inp s)) = JointStateMessage (joint_state_msg (loop inp s))"
  by (simp add: loop_def Let_def publish_def)

section \<open>Wheel order of the joint states\<close>

text \<open>
  C8. The joint-state message set up by setup() names the wheels front-left,
  front-right, back-left, back-right at the indices 0 to 3, and a call of loop() keeps
  the names. After a call of loop() the positions and velocities at the indices 0 to 3
  are the angles and velocities of the encoders of the controllers that the manager
  holds at the indices 0 to 3, these encoders are those of the motors 0 to 3 in this
  order, and the message published last is this joint-state message.
\<close>

theorem joint_state_wheel_order:
  "js_name (joint_state_msg (loop inp (init_messages s))) =
      [''wheel_front_left_joint'', ''wheel_front_right_joint'',
       ''wheel_back_left_joint'', ''wheel_back_right_joint'']
   \<and> map (js_position (joint_state_msg (loop inp s))) [0, 1, 2, 3] =
      map (\<lambda>c. get_angle (encoders (loop inp s) (ctrl_encoder c))) motor_control_manager
   \<and> map (js_velocity (joint_state_msg (loop inp s))) [0, 1, 2, 3] =
      map (\<lambda>c. get_velocity (encoders (loop inp s) (ctrl_encoder c))) motor_control_manager
   \<and> map ctrl_encoder motor_control_manager = [M0, M1, M2, M3]
   \<and> last (published (loop inp s)) = JointStateMessage (joint_state_msg (loop inp s))"
  by (simp add: loop_joint_state_msg loop_encoders loop_last_published init_messages_def
      joint_names_def motor_control_manager_def controller_M0_def controller_M1_def
      controller_M2_def controller_M3_def)

section \<open>Heading\<close>

lemma atan2_range: "- pi \<le> atan2 y x \<and> atan2 y x \<le> pi"
proof -
  have lower: "- (pi / 2) < arctan (y / x)"
    by (rule arctan_lbound)
  have upper: "arctan (y / x) < pi / 2"
    by (rule arctan_ubound)
  have pos: "0 < pi"
    by (rule pi_gt_zero)
  consider "0 < x" | "x < 0" "0 \<le> y" | "x < 0" "y < 0" | "x = 0" "0 < y" | "x = 0" "y < 0"
    | "x = 0" "y = 0"
    by linarith
  then show ?thesis
  proof cases
    case 1
    then have "atan2 y x = arctan (y / x)"
      by (simp add: atan2_def)
    with lower upper pos show ?thesis by linarith
  next
    case 2
    then have "y / x \<le> 0"
      by (simp add: divide_nonneg_neg)
    then have "arctan (y / x) \<le> 0"
      by (simp only: arctan_le_zero_iff)
    moreover from 2 have "atan2 y x = arctan (y / x) + pi"
      by (simp add: atan2_def)
    ultimately show ?thesis
      using lower pos by linarith
  next
    case 3
    then have "0 < y / x"
      by (simp add: divide_neg_neg)
    then have "0 < arctan (y / x)"
      by (simp only: zero_less_arctan_iff)
    moreover from 3 have "atan2 y x = arctan (y / x) - pi"
      by (simp add: atan2_def)
    ultimately show ?thesis
      using upper pos by linarith
  next
    case 4
    then have "atan2 y x = pi / 2"
      by (simp add: atan2_def)
    with pos show ?thesis by linarith
  next
    case 5
    then have "atan2 y x = - (pi / 2)"
      by (simp add: atan2_def)
    with pos show ?thesis by linarith
  next
    case 6
    then have "atan2 y x = 0"
      by (simp add: atan2_def)
    with pos show ?thesis by linarith
  qed
qed

text \<open>
  On the sine and cosine of an angle, \<open>atan2\<close> gives an angle of the same direction:
  the normalisation in loop() changes the heading by a multiple of a full turn only.
\<close>

lemma cos_arctan_ratio:
  fixes s c :: real
  assumes "s\<^sup>2 + c\<^sup>2 = 1" and "c \<noteq> 0"
  shows "cos (arctan (s / c)) = \<bar>c\<bar>" and "sin (arctan (s / c)) = (s / c) * \<bar>c\<bar>"
proof -
  have "1 + (s / c)\<^sup>2 = 1 / c\<^sup>2"
    using assms by (simp add: field_simps power2_eq_square)
  then have root: "sqrt (1 + (s / c)\<^sup>2) = 1 / \<bar>c\<bar>"
    by (simp add: real_sqrt_divide)
  show "cos (arctan (s / c)) = \<bar>c\<bar>"
    by (simp add: cos_arctan root)
  show "sin (arctan (s / c)) = (s / c) * \<bar>c\<bar>"
    by (simp add: sin_arctan root)
qed

lemma atan2_direction:
  "cos (atan2 (sin t) (cos t)) = cos t \<and> sin (atan2 (sin t) (cos t)) = sin t"
proof -
  have unit: "(sin t)\<^sup>2 + (cos t)\<^sup>2 = 1"
    by simp
  consider "0 < cos t" | "cos t < 0" | "cos t = 0" "0 < sin t" | "cos t = 0" "sin t < 0"
    | "cos t = 0" "sin t = 0"
    by linarith
  then show ?thesis
  proof cases
    case 1
    then have nz: "cos t \<noteq> 0" by simp
    from 1 cos_arctan_ratio [OF unit nz] show ?thesis
      by (simp add: atan2_def)
  next
    case 2
    then have nz: "cos t \<noteq> 0" by simp
    from 2 cos_arctan_ratio [OF unit nz] show ?thesis
      by (simp add: atan2_def)
  next
    case 3
    with unit have "(sin t)\<^sup>2 = 1" by simp
    with 3 have "sin t = 1"
      by (simp add: power2_eq_1_iff)
    with 3 show ?thesis by (simp add: atan2_def)
  next
    case 4
    with unit have "(sin t)\<^sup>2 = 1" by simp
    with 4 have "sin t = - 1"
      by (simp add: power2_eq_1_iff)
    with 4 show ?thesis by (simp add: atan2_def)
  next
    case 5
    with unit show ?thesis by simp
  qed
qed

lemma loop_heading:
  "e2 (pose (loop inp s)) =
     atan2_d
       (sin_d (integrated_heading (in_robot_velocity inp)
                 (elapsed_seconds (in_now inp) (last_time s)) (pose s)))
       (cos_d (integrated_heading (in_robot_velocity inp)
                 (elapsed_seconds (in_now inp) (last_time s)) (pose s)))"
  by (simp add: loop_pose integrate_pose_def Let_def)

lemma normalised_finite: "in_heading_range (atan2_d (sin_d (Finite t)) (cos_d (Finite t)))"
  by (simp add: atan2_range)

lemma normalised_not_finite:
  assumes "\<not> is_finite h"
  shows "atan2_d (sin_d h) (cos_d h) = NaN"
  using assms by (cases h) simp_all

text \<open>When the integrated heading is an infinity or a NaN, the heading after loop() is NaN.\<close>

lemma loop_heading_nan:
  assumes "\<not> is_finite (integrated_heading (in_robot_velocity inp)
                (elapsed_seconds (in_now inp) (last_time s)) (pose s))"
  shows "e2 (pose (loop inp s)) = NaN"
  unfolding loop_heading using assms by (rule normalised_not_finite)

lemma ten_seconds: "elapsed_seconds (in_now (turning_input w)) (last_time power_on) = Finite 10"
  by (simp add: turning_input_def power_on_def elapsed_seconds_def fp_eval)

lemma turning_heading:
  "integrated_heading (in_robot_velocity (turning_input w))
     (elapsed_seconds (in_now (turning_input w)) (last_time power_on)) (pose power_on) =
   add_d (Finite 0) (mul_d w (Finite 10))"
  unfolding ten_seconds
  by (simp add: integrated_heading_def turning_input_def power_on_def zero3d_def)

text \<open>
  C10, as stated, fails. Ten seconds after power-on, with the finite angular velocity
  \<open>2 ^ 1023\<close>, the product \<open>w * dt\<close> overflows to infinity, sine and cosine of it are
  NaN, and the heading after loop() is NaN: not a number between \<open>-\<pi>\<close> and \<open>\<pi>\<close>.
\<close>

theorem heading_overflow_counterexample:
  "e2 (pose (loop (turning_input (Finite (2 ^ 1023))) power_on)) = NaN
   \<and> \<not> in_heading_range (e2 (pose (loop (turning_input (Finite (2 ^ 1023))) power_on)))"
proof -
  have "mul_d (Finite (2 ^ 1023)) (Finite 10) = PInf"
    by (simp add: fp_eval)
  then have "e2 (pose (loop (turning_input (Finite (2 ^ 1023))) power_on)) = NaN"
    unfolding loop_heading turning_heading by (simp add: add_d_def)
  then show ?thesis by simp
qed

text \<open>
  C10, amended. After every call of loop() in which the integrated heading
  \<open>pose(2) + w * dt\<close> is a finite number (neither operand is an infinity or a NaN, and
  neither the product nor the sum overflows), the heading \<open>pose(2)\<close> lies between
  \<open>-\<pi>\<close> and \<open>\<pi>\<close>, whatever the state before the call.
\<close>

theorem heading_normalized:
  assumes "is_finite (integrated_heading (in_robot_velocity inp)
              (elapsed_seconds (in_now inp) (last_time s)) (pose s))"
  shows "in_heading_range (e2 (pose (loop inp s)))"
proof -
  from assms obtain t where
    "integrated_heading (in_robot_velocity inp)
       (elapsed_seconds (in_now inp) (last_time s)) (pose s) = Finite t"
    by (cases "integrated_heading (in_robot_velocity inp)
       (elapsed_seconds (in_now inp) (last_time s)) (pose s)") simp_all
  then show ?thesis
    unfolding loop_heading by (simp only: normalised_finite)
qed

theorem heading_normalized_witness:
  "is_finite (integrated_heading (in_robot_velocity (turning_input (Finite 1)))
      (elapsed_seconds (in_now (turning_input (Finite 1))) (last_time power_on)) (pose power_on))
   \<and> in_heading_range (e2 (pose (loop (turning_input (Finite 1)) power_on)))"
proof -
  have fin: "is_finite (integrated_heading (in_robot_velocity (turning_input (Finite 1)))
      (elapsed_seconds (in_now (turning_input (Finite 1))) (last_time power_on)) (pose power_on))"
    unfolding turning_heading by (simp add: fp_eval)
  from fin heading_normalized [OF fin] show ?thesis by simp
qed

section \<open>setup() and the calls of loop()\<close>

lemma init_messages_frame:
  "update_calls (init_messages s) = update_calls s"
  "pose (init_messages s) = pose s"
  "published (init_messages s) = published s"
  by (simp_all add: init_messages_def)

lemma position_test_body_frame:
  assumes "position_test_body inp l s = (l', s')"
  shows "update_calls s' = update_calls s \<and> pose s' = pose s \<and> published s' = published s"
  using assms by (auto simp add: position_test_body_def Let_def)

lemma step_in_setup:
  assumes "point c \<noteq> InLoop"
  shows "point (step ev c) \<noteq> InLoop \<and> loop_owned (globals (step ev c)) = loop_owned (globals c)"
proof (cases "point c")
  case (InSetupInit i)
  then show ?thesis
    by (simp add: step_def loop_owned_def init_messages_frame split: option.split)
next
  case (InPositionTest l)
  obtain l' s' where body: "position_test_body (ev_test ev) l (globals c) = (l', s')"
    by (cases "position_test_body (ev_test ev) l (globals c)")
  with InPositionTest position_test_body_frame [OF body] show ?thesis
    by (simp add: step_def loop_owned_def)
next
  case InLoop
  with assms show ?thesis by simp
qed

lemma run_in_setup:
  assumes "point c \<noteq> InLoop"
  shows "point (run evs c) \<noteq> InLoop \<and> loop_owned (globals (run evs c)) = loop_owned (globals c)"
  using assms
proof (induction evs arbitrary: c)
  case Nil
  then show ?case by simp
next
  case (Cons ev evs)
  from step_in_setup [OF Cons.prems, of ev]
  have here: "point (step ev c) \<noteq> InLoop"
    and same: "loop_owned (globals (step ev c)) = loop_owned (globals c)"
    by simp_all
  from Cons.IH [OF here] same show ?case by simp
qed

text \<open>
  The model is not idle: once the seven micro-ROS calls succeed the program is in the
  test loop, and a call of loop(), were it made, would count an update and publish two
  messages.
\<close>

lemma setup_reaches_test_loop:
  assumes "rcl_ok ev"
  shows "\<exists>l. point (run [ev, ev, ev, ev, ev, ev, ev] (boot s)) = InPositionTest l"
  using assms by (simp add: boot_def step_def)

lemma test_loop_stays:
  assumes "point c = InPositionTest l"
  shows "\<exists>l'. point (step ev c) = InPositionTest l'"
  using assms by (simp add: step_def split: prod.split)

lemma loop_step_observable:
  assumes "point c = InLoop"
  shows "update_calls (globals (step ev c)) = update_calls (globals c) + 1
    \<and> length (published (globals (step ev c))) = length (published (globals c)) + 2"
  using assms by (simp add: step_def loop_update_calls loop_published)

text \<open>
  C2. setup() never returns, and loop() is never executed: after any number of steps of
  the program from its start, under any behaviour of the environment, the program is not
  past the return of setup(), no call of \<^verbatim>\<open>robot_controller.update()\<close> has been made,
  the pose is the one of the start, and nothing has been published.
\<close>

theorem setup_never_returns:
  "point (run evs (boot s)) \<noteq> InLoop
   \<and> update_calls (globals (run evs (boot s))) = update_calls s
   \<and> pose (globals (run evs (boot s))) = pose s
   \<and> published (globals (run evs (boot s))) = published s"
proof -
  have "point (boot s) \<noteq> InLoop"
    by (simp add: boot_def)
  from run_in_setup [OF this, of evs] show ?thesis
    by (simp add: loop_owned_def boot_def)
qed

end
